theory Spec2Isabelle
  imports Main
begin

section \<open>JSON values as the Python code sees them\<close>

text \<open>
  The service exchanges JSON with the history worker, with the browser and with its own
  HTTP clients. A decoded JSON value is a Python \<open>None\<close>, \<open>bool\<close>, number, \<open>str\<close>,
  \<open>list\<close> or \<open>dict\<close>. A dictionary is kept as the list of its items (its keys are
  distinct, as in Python). Numbers are integers here: no branch of the code looks at one.
\<close>

datatype json =
    JNull
  | JBool bool
  | JNum int
  | JStr string
  | JList "json list"
  | JObj "(string \<times> json) list"

text \<open>\<open>d.get(k)\<close> and \<open>d.get(k, default)\<close> on a dictionary.\<close>

definition dict_get :: "(string \<times> json) list \<Rightarrow> string \<Rightarrow> json option" where
  "dict_get d k = map_of d k"

definition dict_get_default :: "(string \<times> json) list \<Rightarrow> string \<Rightarrow> json \<Rightarrow> json" where
  "dict_get_default d k dflt = (case map_of d k of None \<Rightarrow> dflt | Some v \<Rightarrow> v)"

text \<open>A Python \<open>None\<close> stored in a dictionary that is then serialised is JSON \<open>null\<close>.\<close>

definition or_null :: "json option \<Rightarrow> json" where
  "or_null v = (case v of None \<Rightarrow> JNull | Some x \<Rightarrow> x)"

fun is_list :: "json \<Rightarrow> bool" where
  "is_list (JList xs) = True"
| "is_list _ = False"

fun is_dict :: "json \<Rightarrow> bool" where
  "is_dict (JObj d) = True"
| "is_dict _ = False"

datatype py_error = AttributeError | TypeError | ValidationError | JSONDecodeError | KeyError

text \<open>
  \<open>for msg in v\<close>: a list yields its elements, a string its characters, a dictionary its
  keys; \<open>None\<close>, a bool and a number are not iterable.
\<close>

fun py_iter :: "json \<Rightarrow> py_error + json list" where
  "py_iter (JList xs) = Inr xs"
| "py_iter (JStr s) = Inr (map (\<lambda>c. JStr [c]) s)"
| "py_iter (JObj d) = Inr (map (\<lambda>kv. JStr (fst kv)) d)"
| "py_iter JNull = Inl TypeError"
| "py_iter (JBool b) = Inl TypeError"
| "py_iter (JNum n) = Inl TypeError"

text \<open>\<open>s.strip()\<close>, on the ASCII white space characters.\<close>

definition is_space :: "char \<Rightarrow> bool" where
  "is_space c = (of_char c \<in> set [9, 10, 11, 12, 13, 28, 29, 30, 31, 32 :: nat])"

definition strip :: "string \<Rightarrow> string" where
  "strip s = rev (dropWhile is_space (rev (dropWhile is_space s)))"

section \<open>The universal history parser\<close>

text \<open>
  \<open>parse_worker_history\<close>: a list is returned as it is, a dictionary gives whatever it
  holds under \<open>history\<close> (the empty list when the key is absent), anything else the empty
  list.
\<close>

fun parse_worker_history :: "json \<Rightarrow> json" where
  "parse_worker_history (JList xs) = JList xs"
| "parse_worker_history (JObj d) = dict_get_default d ''history'' (JList [])"
| "parse_worker_history JNull = JList []"
| "parse_worker_history (JBool b) = JList []"
| "parse_worker_history (JNum n) = JList []"
| "parse_worker_history (JStr s) = JList []"

section \<open>The world outside the process\<close>

text \<open>
  A WebSocket object is identified by a number. The generation backend takes a list of
  \<open>Content\<close> values (role and text) and answers with a stream: each item is a chunk,
  whose \<open>text\<close> may be absent, or the point where the call or the iteration raises,
  carrying \<open>str(e)\<close>. The end of the list is the normal end of the stream.
\<close>

type_synonym conn = nat

datatype content = Content string json

datatype stream_item = Chunk "string option" | Raise string

text \<open>
  The answer to \<open>http_client.get\<close>: the request raises (a transport error or a timeout),
  or there is a response with its \<open>status_code\<close>, its \<open>text\<close> and the outcome of
  \<open>resp.json()\<close>, \<open>None\<close> when the body does not decode (an empty body does not).
\<close>

datatype http_result = Request_Failed | Response int string "json option"

text \<open>
  What the surroundings answer is a parameter of every operation: whether
  \<open>send_text\<close> on a connection succeeds, what the worker answers to a GET, whether its POST
  and DELETE return or raise, whether \<open>types.Part.from_text\<close> accepts a value as text (the
  library validates its argument), and the stream the backend produces for a context.
\<close>

record env =
  send_ok :: "conn \<Rightarrow> json \<Rightarrow> bool"
  worker_get :: http_result
  worker_post_ok :: "string \<Rightarrow> json \<Rightarrow> bool"
  worker_delete_ok :: bool
  from_text_ok :: "json \<Rightarrow> bool"
  generate_content_stream :: "content list \<Rightarrow> stream_item list"

text \<open>
  Everything the process does to the outside is appended to one trace, in the order it
  happens: a call of \<open>manager.broadcast\<close> with its message, each \<open>send_text\<close> with its
  outcome, each request to the worker, the backend call, the WebSocket accept.
\<close>

datatype effect =
    Broadcast json
  | Sent conn json
  | Send_Failed conn json
  | Worker_Get
  | Worker_Post string json
  | Worker_Delete
  | Gemini_Call "content list"
  | Accepted conn

record world =
  active_connections :: "conn list"
  trace :: "effect list"

definition emit :: "effect list \<Rightarrow> world \<Rightarrow> world" where
  "emit es w = w\<lparr>trace := trace w @ es\<rparr>"

section \<open>ConnectionManager\<close>

definition connect :: "conn \<Rightarrow> world \<Rightarrow> world" where
  "connect websocket w =
     (emit [Accepted websocket] w)\<lparr>active_connections := active_connections w @ [websocket]\<rparr>"

definition disconnect :: "conn \<Rightarrow> world \<Rightarrow> world" where
  "disconnect websocket w =
     (if websocket \<in> set (active_connections w)
      then w\<lparr>active_connections := remove1 websocket (active_connections w)\<rparr>
      else w)"

text \<open>
  \<open>broadcast\<close> walks a copy of the registry; a \<open>send_text\<close> that raises is swallowed by
  the bare \<open>except: pass\<close> and the loop goes on. The registry is not touched.
\<close>

fun broadcast_loop :: "env \<Rightarrow> json \<Rightarrow> conn list \<Rightarrow> world \<Rightarrow> world" where
  "broadcast_loop e encoded [] w = w"
| "broadcast_loop e encoded (connection # rest) w =
     (if send_ok e connection encoded
      then broadcast_loop e encoded rest (emit [Sent connection encoded] w)
      else broadcast_loop e encoded rest (emit [Send_Failed connection encoded] w))"

definition broadcast :: "env \<Rightarrow> json \<Rightarrow> world \<Rightarrow> world" where
  "broadcast e message w =
     broadcast_loop e message (active_connections w) (emit [Broadcast message] w)"

text \<open>The messages a connection has received, in order.\<close>

fun received :: "conn \<Rightarrow> effect list \<Rightarrow> json list" where
  "received c [] = []"
| "received c (Sent c' m # es) = (if c' = c then m # received c es else received c es)"
| "received c (x # es) = received c es"

text \<open>The messages handed to \<open>manager.broadcast\<close>, in order.\<close>

fun broadcasts :: "effect list \<Rightarrow> json list" where
  "broadcasts [] = []"
| "broadcasts (Broadcast m # es) = m # broadcasts es"
| "broadcasts (x # es) = broadcasts es"

section \<open>Helpers\<close>

text \<open>
  \<open>save_message\<close> posts the record to the worker once. An exception of the request is
  caught and printed, so both outcomes leave the same state and the function never raises.
\<close>

definition save_message :: "env \<Rightarrow> string \<Rightarrow> json \<Rightarrow> world \<Rightarrow> world" where
  "save_message e role content w =
     (let w1 = emit [Worker_Post role content] w
      in if worker_post_ok e role content then w1 else w1)"

section \<open>generate_ai_response\<close>

text \<open>
  Step 1, the history fetch. The inner \<open>try\<close> holds \<open>resp.json()\<close> and the parser; its
  handler and the outer handler both set \<open>raw_history\<close> to the empty list. A status other
  than 200 leaves the initial empty list.
\<close>

definition decode_history :: "json option \<Rightarrow> py_error + json" where
  "decode_history js =
     (case js of None \<Rightarrow> Inl JSONDecodeError | Some json_data \<Rightarrow> Inr (parse_worker_history json_data))"

definition fetch_history :: "env \<Rightarrow> json" where
  "fetch_history e =
     (case worker_get e of
        Request_Failed \<Rightarrow> JList []
      | Response status_code text js \<Rightarrow>
          (if status_code = 200
           then (case decode_history js of Inl err \<Rightarrow> JList [] | Inr raw_history \<Rightarrow> raw_history)
           else JList []))"

text \<open>
  Step 2, the context for the backend. This loop is outside every \<open>try\<close>: \<open>msg.get\<close> on
  a value that is not a dictionary raises \<open>AttributeError\<close>, iterating a value that is not
  iterable raises \<open>TypeError\<close>, and a text the library refuses raises its validation error.
\<close>

definition gemini_role :: "(string \<times> json) list \<Rightarrow> string" where
  "gemini_role msg =
     (if dict_get msg ''role'' = Some (JStr ''assistant'') \<or> dict_get msg ''role'' = Some (JStr ''model'')
      then ''model'' else ''user'')"

definition gemini_text :: "(string \<times> json) list \<Rightarrow> json" where
  "gemini_text msg = dict_get_default msg ''content'' (JStr [])"

fun format_history :: "env \<Rightarrow> json list \<Rightarrow> py_error + content list" where
  "format_history e [] = Inr []"
| "format_history e (msg # rest) =
     (case msg of
        JObj d \<Rightarrow>
          (if from_text_ok e (gemini_text d)
           then (case format_history e rest of
                   Inl err \<Rightarrow> Inl err
                 | Inr cs \<Rightarrow> Inr (Content (gemini_role d) (gemini_text d) # cs))
           else Inl ValidationError)
      | _ \<Rightarrow> Inl AttributeError)"

definition gemini_contents :: "env \<Rightarrow> json \<Rightarrow> json \<Rightarrow> py_error + content list" where
  "gemini_contents e raw_history user_content =
     (case py_iter raw_history of
        Inl err \<Rightarrow> Inl err
      | Inr msgs \<Rightarrow>
          (case format_history e msgs of
             Inl err \<Rightarrow> Inl err
           | Inr cs \<Rightarrow>
               (if from_text_ok e user_content
                then Inr (cs @ [Content ''user'' user_content])
                else Inl ValidationError)))"

text \<open>Step 3, the stream, with the events it broadcasts.\<close>

definition stream_event :: "string \<Rightarrow> json" where
  "stream_event chunk =
     JObj [(''role'', JStr ''assistant''), (''chunk'', JStr chunk), (''type'', JStr ''stream'')]"

definition stream_end_event :: json where
  "stream_end_event = JObj [(''type'', JStr ''stream_end'')]"

definition error_chunk :: "string \<Rightarrow> string" where
  "error_chunk err = '' ['' @ (''Error generating response: '' @ err) @ '']''"

fun stream_loop :: "env \<Rightarrow> stream_item list \<Rightarrow> string \<Rightarrow> world \<Rightarrow> world" where
  "stream_loop e [] full_response w =
     broadcast e stream_end_event (save_message e ''assistant'' (JStr full_response) w)"
| "stream_loop e (Chunk None # items) full_response w = stream_loop e items full_response w"
| "stream_loop e (Chunk (Some t) # items) full_response w =
     (if t \<noteq> []
      then stream_loop e items (full_response @ t) (broadcast e (stream_event t) w)
      else stream_loop e items full_response w)"
| "stream_loop e (Raise err # items) full_response w =
     broadcast e stream_end_event (broadcast e (stream_event (error_chunk err)) w)"

text \<open>
  The whole operation: the state it leaves, and the exception it ends with when one
  escapes it.
\<close>

definition generate_ai_response :: "env \<Rightarrow> json \<Rightarrow> world \<Rightarrow> world \<times> py_error option" where
  "generate_ai_response e user_content w =
     (let w1 = emit [Worker_Get] w;
          raw_history = fetch_history e
      in case gemini_contents e raw_history user_content of
           Inl err \<Rightarrow> (w1, Some err)
         | Inr contents \<Rightarrow>
             (stream_loop e (generate_content_stream e contents) []
                (emit [Gemini_Call contents] w1), None))"

section \<open>Endpoints\<close>

text \<open>
  \<open>POST /chat\<close> queues two background tasks around one broadcast and answers at once.
  The framework runs the queued tasks in order after the response; a task that raises
  ends the run.
\<close>

datatype task = Save_Message string json | Generate_Ai_Response json

definition user_event :: "json \<Rightarrow> json" where
  "user_event user_content = JObj [(''role'', JStr ''user''), (''content'', user_content)]"

definition chat_endpoint :: "env \<Rightarrow> (string \<times> json) list \<Rightarrow> world \<Rightarrow> world \<times> task list \<times> json" where
  "chat_endpoint e payload w =
     (let user_content = dict_get_default payload ''content'' (JStr []);
          tasks1 = [Save_Message ''user'' user_content];
          w1 = broadcast e (user_event user_content) w;
          tasks2 = tasks1 @ [Generate_Ai_Response user_content]
      in (w1, tasks2, JObj [(''status'', JStr ''ok'')]))"

fun run_task :: "env \<Rightarrow> task \<Rightarrow> world \<Rightarrow> world \<times> py_error option" where
  "run_task e (Save_Message role content) w = (save_message e role content w, None)"
| "run_task e (Generate_Ai_Response user_content) w = generate_ai_response e user_content w"

fun run_tasks :: "env \<Rightarrow> task list \<Rightarrow> world \<Rightarrow> world \<times> py_error option" where
  "run_tasks e [] w = (w, None)"
| "run_tasks e (t # ts) w =
     (case run_task e t w of
        (w1, Some err) \<Rightarrow> (w1, Some err)
      | (w1, None) \<Rightarrow> run_tasks e ts w1)"

definition chat_request :: "env \<Rightarrow> (string \<times> json) list \<Rightarrow> world \<Rightarrow> world \<times> py_error option" where
  "chat_request e payload w =
     (case chat_endpoint e payload w of (w1, tasks, response) \<Rightarrow> run_tasks e tasks w1)"

text \<open>
  \<open>DELETE /reset\<close>: the delete request and the broadcast share one \<open>try\<close>, so a request
  that raises skips the broadcast.
\<close>

definition clear_event :: json where
  "clear_event = JObj [(''type'', JStr ''clear'')]"

definition reset_history :: "env \<Rightarrow> world \<Rightarrow> world \<times> json" where
  "reset_history e w =
     (let w1 = emit [Worker_Delete] w
      in ((if worker_delete_ok e then broadcast e clear_event w1 else w1),
          JObj [(''status'', JStr ''reset'')]))"

text \<open>
  \<open>/ws\<close>: register, replay the stored history to this connection, then read until the
  peer disconnects. In the replay a \<open>send_text\<close> that raises leaves the loop; the
  enclosing \<open>try\<close> catches it, as it catches a failed request, a body that does not
  decode and a history that is not iterable.
\<close>

definition full_event :: "(string \<times> json) list \<Rightarrow> json" where
  "full_event msg =
     JObj [(''role'', or_null (dict_get msg ''role'')),
           (''content'', or_null (dict_get msg ''content'')),
           (''type'', JStr ''full'')]"

datatype send_error = Send_Error

fun replay_loop :: "env \<Rightarrow> conn \<Rightarrow> json list \<Rightarrow> world \<Rightarrow> world \<times> send_error option" where
  "replay_loop e websocket [] w = (w, None)"
| "replay_loop e websocket (msg # rest) w =
     (case msg of
        JObj d \<Rightarrow>
          (if send_ok e websocket (full_event d)
           then replay_loop e websocket rest (emit [Sent websocket (full_event d)] w)
           else (emit [Send_Failed websocket (full_event d)] w, Some Send_Error))
      | _ \<Rightarrow> replay_loop e websocket rest w)"

definition sync_history :: "env \<Rightarrow> conn \<Rightarrow> world \<Rightarrow> world" where
  "sync_history e websocket w =
     (let w1 = emit [Worker_Get] w
      in case worker_get e of
           Request_Failed \<Rightarrow> w1
         | Response status_code text js \<Rightarrow>
             (if status_code = 200 \<and> strip text \<noteq> []
              then (case decode_history js of
                      Inl err \<Rightarrow> w1
                    | Inr history \<Rightarrow>
                        (case py_iter history of
                           Inl err \<Rightarrow> w1
                         | Inr msgs \<Rightarrow> fst (replay_loop e websocket msgs w1)))
              else w1))"

text \<open>
  What arrives from the peer: text frames, frames that carry bytes, then perhaps the
  disconnect. The loop drops each text. On a frame that carries bytes \<open>receive_text\<close>
  raises \<open>KeyError\<close> (the message has no \<open>text\<close> key); the handler catches
  \<open>WebSocketDisconnect\<close> only, so it ends with that exception and \<open>manager.disconnect\<close>
  is never called. When the frames so far hold neither, the handler is still waiting in
  \<open>receive_text\<close>.
\<close>

datatype frame = Text_Frame string | Binary_Frame string | Disconnect_Frame

datatype handler_end = Waiting | Returned | Raised py_error

fun receive_loop :: "conn \<Rightarrow> frame list \<Rightarrow> world \<Rightarrow> world \<times> handler_end" where
  "receive_loop websocket [] w = (w, Waiting)"
| "receive_loop websocket (Text_Frame t # frames) w = receive_loop websocket frames w"
| "receive_loop websocket (Binary_Frame b # frames) w = (w, Raised KeyError)"
| "receive_loop websocket (Disconnect_Frame # frames) w = (disconnect websocket w, Returned)"

definition websocket_endpoint :: "env \<Rightarrow> conn \<Rightarrow> frame list \<Rightarrow> world \<Rightarrow> world \<times> handler_end" where
  "websocket_endpoint e websocket frames w =
     receive_loop websocket frames (sync_history e websocket (connect websocket w))"

section \<open>Reading the trace\<close>

text \<open>
  The effects of one \<open>broadcast\<close> over a registry, the effects an operation added to the
  trace, the text fragments of a stream (the chunks that carry non-empty text), the
  contents posted to the worker with role \<open>user\<close>, the events a stream makes the
  orchestrator broadcast, and the dictionaries of a history, in its order.
\<close>

fun dict_records :: "json list \<Rightarrow> (string \<times> json) list list" where
  "dict_records [] = []"
| "dict_records (JObj d # rest) = d # dict_records rest"
| "dict_records (x # rest) = dict_records rest"

definition broadcast_effects :: "env \<Rightarrow> json \<Rightarrow> conn list \<Rightarrow> effect list" where
  "broadcast_effects e m cs =
     Broadcast m # map (\<lambda>c. if send_ok e c m then Sent c m else Send_Failed c m) cs"

definition effects_of :: "world \<Rightarrow> world \<Rightarrow> effect list" where
  "effects_of w w' = drop (length (trace w)) (trace w')"

fun fragments :: "string option list \<Rightarrow> string list" where
  "fragments [] = []"
| "fragments (None # ts) = fragments ts"
| "fragments (Some t # ts) = (if t = [] then fragments ts else t # fragments ts)"

fun user_posts :: "effect list \<Rightarrow> json list" where
  "user_posts [] = []"
| "user_posts (Worker_Post role content # es) =
     (if role = ''user'' then content # user_posts es else user_posts es)"
| "user_posts (x # es) = user_posts es"

fun is_empty_chunk :: "stream_item \<Rightarrow> bool" where
  "is_empty_chunk (Chunk None) = True"
| "is_empty_chunk (Chunk (Some t)) = (t = [])"
| "is_empty_chunk (Raise err) = False"

fun stream_broadcasts :: "stream_item list \<Rightarrow> json list" where
  "stream_broadcasts [] = [stream_end_event]"
| "stream_broadcasts (Chunk None # items) = stream_broadcasts items"
| "stream_broadcasts (Chunk (Some t) # items) =
     (if t \<noteq> [] then stream_event t # stream_broadcasts items else stream_broadcasts items)"
| "stream_broadcasts (Raise err # items) = [stream_event (error_chunk err), stream_end_event]"

section \<open>Sample surroundings\<close>

text \<open>
  Three records: one of the user, one of the assistant, and one with an unknown role and
  no content. The sample worker stores the first two.
\<close>

definition user_record :: "(string \<times> json) list" where
  "user_record = [(''role'', JStr ''user''), (''content'', JStr ''a'')]"

definition assistant_record :: "(string \<times> json) list" where
  "assistant_record = [(''role'', JStr ''assistant''), (''content'', JStr ''b'')]"

definition system_record :: "(string \<times> json) list" where
  "system_record = [(''role'', JStr ''system'')]"

definition stored_history :: "json list" where
  "stored_history = [JObj user_record, JObj assistant_record]"

text \<open>
  Three viewers, the second of which has gone away (every send to it raises); a worker
  answering with the stored records as a bare list; a backend answering in four chunks,
  the second without text and the third with an empty text.
\<close>

definition demo_env :: env where
  "demo_env =
     \<lparr>send_ok = (\<lambda>c m. c \<noteq> 2),
      worker_get =
        Response 200
          ''[{\"role\": \"user\", \"content\": \"a\"}, {\"role\": \"assistant\", \"content\": \"b\"}]''
          (Some (JList stored_history)),
      worker_post_ok = (\<lambda>r c. True),
      worker_delete_ok = True,
      from_text_ok = (\<lambda>v. True),
      generate_content_stream =
        (\<lambda>cs. [Chunk (Some ''Hel''), Chunk None, Chunk (Some []), Chunk (Some ''lo'')])\<rparr>"

definition world3 :: world where
  "world3 = \<lparr>active_connections = [1, 2, 3], trace = []\<rparr>"

text \<open>
  The same surroundings with other workers: one whose list holds a \<open>null\<close>, one whose
  list holds a number, one whose list holds a record without any field, one that wraps
  the stored records under \<open>history\<close>, one that wraps \<open>null\<close> there, and one that cannot
  be reached.
\<close>

definition null_record_env :: env where
  "null_record_env = demo_env\<lparr>worker_get := Response 200 ''[null]'' (Some (JList [JNull]))\<rparr>"

definition bare_numbers_env :: env where
  "bare_numbers_env = demo_env\<lparr>worker_get := Response 200 ''[1]'' (Some (JList [JNum 1]))\<rparr>"

definition empty_record_env :: env where
  "empty_record_env = demo_env\<lparr>worker_get := Response 200 ''[{}]'' (Some (JList [JObj []]))\<rparr>"

definition wrapped_env :: env where
  "wrapped_env =
     demo_env\<lparr>worker_get :=
       Response 200
         ''{\"history\": [{\"role\": \"user\", \"content\": \"a\"}, {\"role\": \"assistant\", \"content\": \"b\"}]}''
         (Some (JObj [(''history'', JList stored_history)]))\<rparr>"

definition wrapped_null_env :: env where
  "wrapped_null_env =
     demo_env\<lparr>worker_get := Response 200 ''{\"history\": null}'' (Some (JObj [(''history'', JNull)]))\<rparr>"

definition unreachable_worker_env :: env where
  "unreachable_worker_env = demo_env\<lparr>worker_get := Request_Failed, worker_delete_ok := False\<rparr>"

section \<open>Basic facts\<close>

lemma emit_trace: "trace (emit es w) = trace w @ es"
  by (simp add: emit_def)

lemma emit_conns: "active_connections (emit es w) = active_connections w"
  by (simp add: emit_def)

lemma broadcast_loop_conns:
  "active_connections (broadcast_loop e m cs w) = active_connections w"
  by (induction cs arbitrary: w) (simp_all add: emit_conns)

lemma broadcast_loop_trace:
  "trace (broadcast_loop e m cs w) =
     trace w @ map (\<lambda>c. if send_ok e c m then Sent c m else Send_Failed c m) cs"
  by (induction cs arbitrary: w) (simp_all add: emit_trace)

lemma broadcast_trace:
  "trace (broadcast e m w) = trace w @ broadcast_effects e m (active_connections w)"
  by (simp add: broadcast_def broadcast_effects_def broadcast_loop_trace emit_trace emit_conns)

lemma broadcast_conns: "active_connections (broadcast e m w) = active_connections w"
  by (simp add: broadcast_def broadcast_loop_conns emit_conns)

lemma received_append: "received c (xs @ ys) = received c xs @ received c ys"
  by (induction c xs rule: received.induct) simp_all

lemma broadcasts_append: "broadcasts (xs @ ys) = broadcasts xs @ broadcasts ys"
  by (induction xs rule: broadcasts.induct) simp_all

lemma received_sends:
  "received c (map (\<lambda>x. if send_ok e x m then Sent x m else Send_Failed x m) cs) =
     (if send_ok e c m then replicate (count_list cs c) m else [])"
  by (induction cs) simp_all

lemma received_broadcast_effects:
  "received c (broadcast_effects e m cs) =
     (if send_ok e c m then replicate (count_list cs c) m else [])"
  by (simp add: broadcast_effects_def received_sends)

lemma broadcasts_sends:
  "broadcasts (map (\<lambda>x. if send_ok e x m then Sent x m else Send_Failed x m) cs) = []"
  by (induction cs) simp_all

lemma broadcasts_broadcast_effects: "broadcasts (broadcast_effects e m cs) = [m]"
  by (simp add: broadcast_effects_def broadcasts_sends)


lemma effects_ofI: "trace w' = trace w @ es \<Longrightarrow> effects_of w w' = es"
  by (simp add: effects_of_def)

lemma save_message_trace:
  "trace (save_message e role content w) = trace w @ [Worker_Post role content]"
  by (simp add: save_message_def Let_def emit_trace)

lemma save_message_conns: "active_connections (save_message e role content w) = active_connections w"
  by (simp add: save_message_def Let_def emit_conns)

lemma stream_loop_conns: "active_connections (stream_loop e items full w) = active_connections w"
  by (induction e items full w rule: stream_loop.induct)
     (simp_all add: broadcast_conns save_message_conns)

lemma stream_loop_success:
  "trace (stream_loop e (map Chunk ts) full w) =
     trace w
     @ concat (map (\<lambda>f. broadcast_effects e (stream_event f) (active_connections w)) (fragments ts))
     @ [Worker_Post ''assistant'' (JStr (full @ concat (fragments ts)))]
     @ broadcast_effects e stream_end_event (active_connections w)"
proof (induction ts arbitrary: full w)
  case Nil
  show ?case
    by (simp add: broadcast_trace save_message_trace save_message_conns)
next
  case (Cons t ts)
  show ?case
  proof (cases t)
    case None
    then show ?thesis using Cons.IH by simp
  next
    case (Some s)
    then show ?thesis using Cons.IH
      by (simp add: broadcast_trace broadcast_conns)
  qed
qed

lemma stream_loop_failure:
  "trace (stream_loop e (map Chunk ts @ Raise err # later) full w) =
     trace w
     @ concat (map (\<lambda>f. broadcast_effects e (stream_event f) (active_connections w)) (fragments ts))
     @ broadcast_effects e (stream_event (error_chunk err)) (active_connections w)
     @ broadcast_effects e stream_end_event (active_connections w)"
proof (induction ts arbitrary: full w)
  case Nil
  show ?case
    by (simp add: broadcast_trace broadcast_conns)
next
  case (Cons t ts)
  show ?case
  proof (cases t)
    case None
    then show ?thesis using Cons.IH by simp
  next
    case (Some s)
    then show ?thesis using Cons.IH
      by (simp add: broadcast_trace broadcast_conns)
  qed
qed

lemma stream_loop_skip:
  "stream_loop e items full w = stream_loop e (filter (\<lambda>i. \<not> is_empty_chunk i) items) full w"
  by (induction e items full w rule: stream_loop.induct) simp_all

lemma stream_loop_broadcasts:
  "broadcasts (trace (stream_loop e items full w)) = broadcasts (trace w) @ stream_broadcasts items"
  by (induction e items full w rule: stream_loop.induct)
     (simp_all add: broadcast_trace save_message_trace broadcasts_append broadcasts_broadcast_effects)


lemma user_posts_append: "user_posts (xs @ ys) = user_posts xs @ user_posts ys"
  by (induction xs rule: user_posts.induct) simp_all

lemma user_posts_sends:
  "user_posts (map (\<lambda>x. if send_ok e x m then Sent x m else Send_Failed x m) cs) = []"
  by (induction cs) simp_all

lemma user_posts_broadcast_effects: "user_posts (broadcast_effects e m cs) = []"
  by (simp add: broadcast_effects_def user_posts_sends)

lemma stream_loop_user_posts:
  "user_posts (trace (stream_loop e items full w)) = user_posts (trace w)"
  by (induction e items full w rule: stream_loop.induct)
     (simp_all add: broadcast_trace save_message_trace user_posts_append user_posts_broadcast_effects)

lemma stream_loop_extends: "\<exists>es. trace (stream_loop e items full w) = trace w @ es"
proof (induction e items full w rule: stream_loop.induct)
  case (3 e t items full_response w)
  show ?case
  proof (cases "t = []")
    case True
    then show ?thesis using 3 by simp
  next
    case False
    then obtain es where
      "trace (stream_loop e items (full_response @ t) (broadcast e (stream_event t) w)) =
         trace (broadcast e (stream_event t) w) @ es"
      using 3 by blast
    then show ?thesis using False by (simp add: broadcast_trace)
  qed
qed (simp_all add: broadcast_trace save_message_trace save_message_conns broadcast_conns)

lemma generate_ai_response_raises:
  "gemini_contents e (fetch_history e) user_content = Inl err \<Longrightarrow>
   generate_ai_response e user_content w = (emit [Worker_Get] w, Some err)"
  by (simp add: generate_ai_response_def Let_def)

lemma generate_ai_response_streams:
  "gemini_contents e (fetch_history e) user_content = Inr contents \<Longrightarrow>
   generate_ai_response e user_content w =
     (stream_loop e (generate_content_stream e contents) []
        (emit [Worker_Get, Gemini_Call contents] w), None)"
  by (simp add: generate_ai_response_def Let_def emit_def)

lemma generate_ai_response_extends:
  "\<exists>es. trace (fst (generate_ai_response e user_content w)) = trace w @ es"
proof (cases "gemini_contents e (fetch_history e) user_content")
  case (Inl err)
  then show ?thesis by (simp add: generate_ai_response_raises emit_trace)
next
  case (Inr contents)
  obtain es where
    "trace (stream_loop e (generate_content_stream e contents) []
        (emit [Worker_Get, Gemini_Call contents] w)) =
      trace (emit [Worker_Get, Gemini_Call contents] w) @ es"
    using stream_loop_extends by blast
  then show ?thesis using Inr by (simp add: generate_ai_response_streams emit_trace)
qed

lemma generate_ai_response_conns:
  "active_connections (fst (generate_ai_response e user_content w)) = active_connections w"
  by (cases "gemini_contents e (fetch_history e) user_content")
     (simp_all add: generate_ai_response_raises generate_ai_response_streams stream_loop_conns emit_conns)

lemma generate_ai_response_broadcasts:
  "broadcasts (trace (fst (generate_ai_response e user_content w))) =
     broadcasts (trace w) @
     (case gemini_contents e (fetch_history e) user_content of
        Inl err \<Rightarrow> []
      | Inr contents \<Rightarrow> stream_broadcasts (generate_content_stream e contents))"
  by (cases "gemini_contents e (fetch_history e) user_content")
     (simp_all add: generate_ai_response_raises generate_ai_response_streams emit_trace
        stream_loop_broadcasts broadcasts_append)

lemma generate_ai_response_user_posts:
  "user_posts (trace (fst (generate_ai_response e user_content w))) = user_posts (trace w)"
  by (cases "gemini_contents e (fetch_history e) user_content")
     (simp_all add: generate_ai_response_raises generate_ai_response_streams emit_trace
        stream_loop_user_posts user_posts_append)

lemma effects_of_broadcasts:
  assumes "trace w' = trace w @ es" and "broadcasts (trace w') = broadcasts (trace w) @ xs"
  shows "broadcasts (effects_of w w') = xs"
  using assms by (simp add: effects_of_def broadcasts_append)

lemma effects_of_user_posts:
  assumes "trace w' = trace w @ es" and "user_posts (trace w') = user_posts (trace w) @ xs"
  shows "user_posts (effects_of w w') = xs"
  using assms by (simp add: effects_of_def user_posts_append)

lemma stream_broadcasts_shape:
  "m \<in> set (stream_broadcasts items) \<Longrightarrow> m = stream_end_event \<or> (\<exists>t. t \<noteq> [] \<and> m = stream_event t)"
  by (induction items rule: stream_broadcasts.induct)
     (auto simp: error_chunk_def split: if_splits)

lemma stream_broadcasts_nonempty: "stream_broadcasts items \<noteq> []"
  by (induction items rule: stream_broadcasts.induct) simp_all

lemma stream_broadcasts_end:
  "last (stream_broadcasts items) = stream_end_event \<and>
   count_list (stream_broadcasts items) stream_end_event = 1"
  by (induction items rule: stream_broadcasts.induct)
     (simp_all add: stream_event_def stream_end_event_def stream_broadcasts_nonempty)


lemma demo_env_fields:
  "send_ok demo_env c m = (c \<noteq> 2)"
  "worker_post_ok demo_env r v = True"
  "worker_delete_ok demo_env = True"
  "from_text_ok demo_env v = True"
  "generate_content_stream demo_env cs = map Chunk [Some ''Hel'', None, Some [], Some ''lo'']"
  by (simp_all add: demo_env_def)

lemma world3_fields: "active_connections world3 = [1, 2, 3]" "trace world3 = []"
  by (simp_all add: world3_def)

lemma generate_ai_response_stream_end:
  assumes "gemini_contents e (fetch_history e) user_content = Inr contents"
  shows "last (broadcasts (effects_of w (fst (generate_ai_response e user_content w)))) = stream_end_event \<and>
         count_list (broadcasts (effects_of w (fst (generate_ai_response e user_content w)))) stream_end_event = 1"
proof -
  obtain es where "trace (fst (generate_ai_response e user_content w)) = trace w @ es"
    using generate_ai_response_extends by blast
  then have "broadcasts (effects_of w (fst (generate_ai_response e user_content w))) =
      stream_broadcasts (generate_content_stream e contents)"
    using assms generate_ai_response_broadcasts [of e user_content w]
    by (simp add: effects_of_broadcasts)
  then show ?thesis by (simp add: stream_broadcasts_end)
qed

lemma count_list_distinct: "distinct cs \<Longrightarrow> c \<in> set cs \<Longrightarrow> count_list cs c = 1"
  by (induction cs) auto

lemma received_one_broadcast:
  assumes "distinct cs" and "c \<in> set cs" and "send_ok e c m"
  shows "received c (broadcast_effects e m cs) = [m]"
  using assms by (simp add: received_broadcast_effects count_list_distinct)

lemma received_many_broadcasts:
  assumes "distinct cs" and "c \<in> set cs" and "\<forall>m. send_ok e c m"
  shows "received c (concat (map (\<lambda>f. broadcast_effects e (g f) cs) fs)) = map g fs"
  using assms by (induction fs) (simp_all add: received_append received_one_broadcast)

lemma broadcasts_many_broadcasts:
  "broadcasts (concat (map (\<lambda>f. broadcast_effects e (g f) cs) fs)) = map g fs"
  by (induction fs) (simp_all add: broadcasts_append broadcasts_broadcast_effects)

lemma successful_run_trace:
  assumes "gemini_contents e (fetch_history e) user_content = Inr contents"
      and "generate_content_stream e contents = map Chunk ts"
  shows "effects_of w (fst (generate_ai_response e user_content w)) =
       [Worker_Get, Gemini_Call contents]
       @ concat (map (\<lambda>f. broadcast_effects e (stream_event f) (active_connections w)) (fragments ts))
       @ [Worker_Post ''assistant'' (JStr (concat (fragments ts)))]
       @ broadcast_effects e stream_end_event (active_connections w)"
  by (rule effects_ofI)
     (simp add: generate_ai_response_streams [OF assms(1)] assms(2) stream_loop_success
        emit_trace emit_conns)

lemma demo_env_contents:
  "gemini_contents demo_env (fetch_history demo_env) (JStr ''hi'') =
     Inr [Content ''user'' (JStr ''a''), Content ''model'' (JStr ''b''), Content ''user'' (JStr ''hi'')]"
  by (simp add: gemini_contents_def fetch_history_def decode_history_def demo_env_def
      stored_history_def user_record_def assistant_record_def
      gemini_role_def gemini_text_def dict_get_def dict_get_default_def)

lemma extends_effects_of: "trace w' = trace w @ es \<Longrightarrow> trace w' = trace w @ effects_of w w'"
  by (simp add: effects_of_def)

lemma run_tasks_single: "run_tasks e [t] w = run_task e t w"
proof (cases "run_task e t w")
  case (Pair w1 r)
  then show ?thesis by (cases r) simp_all
qed

lemma chat_request_run:
  "chat_request e payload w =
     generate_ai_response e (dict_get_default payload ''content'' (JStr []))
       (save_message e ''user'' (dict_get_default payload ''content'' (JStr []))
          (broadcast e (user_event (dict_get_default payload ''content'' (JStr []))) w))"
proof -
  have "run_tasks e [Save_Message ''user'' c, Generate_Ai_Response c] w1 =
      generate_ai_response e c (save_message e ''user'' c w1)" for c w1
    using run_tasks_single [of e "Generate_Ai_Response c" "save_message e ''user'' c w1"]
    by simp
  then show ?thesis by (simp add: chat_request_def chat_endpoint_def Let_def)
qed

lemma emit_emit: "emit es2 (emit es1 w) = emit (es1 @ es2) w"
  by (simp add: emit_def)

lemma emit_nothing: "emit [] w = w"
  by (simp add: emit_def)

lemma replay_loop_filter:
  "replay_loop e websocket msgs w = replay_loop e websocket (filter is_dict msgs) w"
proof (induction msgs arbitrary: w)
  case Nil
  show ?case by simp
next
  case (Cons msg rest)
  show ?case
  proof (cases msg)
    case (JObj d)
    then show ?thesis using Cons.IH by simp
  qed (use Cons.IH in simp_all)
qed

lemma replay_loop_skip: "\<not> is_dict msg \<Longrightarrow> replay_loop e websocket (msg # rest) w = replay_loop e websocket rest w"
  by (cases msg) simp_all

lemma replay_loop_no_error:
  "(\<forall>d. JObj d \<in> set msgs \<longrightarrow> send_ok e websocket (full_event d)) \<Longrightarrow>
   snd (replay_loop e websocket msgs w) = None"
proof (induction msgs arbitrary: w)
  case Nil
  show ?case by simp
next
  case (Cons msg rest)
  then show ?case by (cases msg) simp_all
qed

lemma replay_loop_dict_records:
  "(\<forall>d. JObj d \<in> set msgs \<longrightarrow> send_ok e websocket (full_event d)) \<Longrightarrow>
   replay_loop e websocket msgs w =
     (emit (map (\<lambda>d. Sent websocket (full_event d)) (dict_records msgs)) w, None)"
proof (induction msgs arbitrary: w)
  case Nil
  show ?case by (simp add: emit_nothing)
next
  case (Cons msg rest)
  then show ?case by (cases msg) (simp_all add: emit_emit)
qed

lemma replay_loop_records:
  "(\<forall>d \<in> set records. send_ok e websocket (full_event d)) \<Longrightarrow>
   replay_loop e websocket (map JObj records) w =
     (emit (map (\<lambda>d. Sent websocket (full_event d)) records) w, None)"
proof (induction records arbitrary: w)
  case Nil
  show ?case by (simp add: emit_nothing)
next
  case (Cons d records)
  then show ?case by (simp add: emit_emit)
qed

lemma receive_loop_texts: "receive_loop websocket (map Text_Frame texts) w = (w, Waiting)"
  by (induction texts) simp_all

lemma receive_loop_disconnect:
  "receive_loop websocket (map Text_Frame texts @ Disconnect_Frame # later) w =
     (disconnect websocket w, Returned)"
  by (induction texts) simp_all

lemma receive_loop_trace: "trace (fst (receive_loop websocket frames w)) = trace w"
  by (induction websocket frames w rule: receive_loop.induct) (simp_all add: disconnect_def)

lemma received_sent_self: "received c (map (\<lambda>d. Sent c (g d)) ds) = map g ds"
  by (induction ds) simp_all

lemma received_sent_other: "c \<noteq> c' \<Longrightarrow> received c (map (\<lambda>d. Sent c' (g d)) ds) = []"
  by (induction ds) simp_all

lemma broadcasts_sent: "broadcasts (map (\<lambda>d. Sent c (g d)) ds) = []"
  by (induction ds) simp_all

lemma connect_trace: "trace (connect websocket w) = trace w @ [Accepted websocket]"
  by (simp add: connect_def emit_def)

lemma connect_conns: "active_connections (connect websocket w) = active_connections w @ [websocket]"
  by (simp add: connect_def)

lemma sync_history_records:
  assumes "worker_get e = Response 200 text (Some json_data)"
      and "strip text \<noteq> []"
      and "parse_worker_history json_data = JList (map JObj records)"
      and "\<forall>d \<in> set records. send_ok e websocket (full_event d)"
  shows "sync_history e websocket w =
           emit (Worker_Get # map (\<lambda>d. Sent websocket (full_event d)) records) w"
  using assms
  by (simp add: sync_history_def Let_def decode_history_def replay_loop_records emit_emit)

lemma stored_history_records: "stored_history = map JObj [user_record, assistant_record]"
  by (simp add: stored_history_def)

lemma demo_env_response:
  "worker_get demo_env =
     Response 200 ''[{\"role\": \"user\", \"content\": \"a\"}, {\"role\": \"assistant\", \"content\": \"b\"}]''
       (Some (JList stored_history))"
  by (simp add: demo_env_def)

lemma demo_env_body:
  "strip ''[{\"role\": \"user\", \"content\": \"a\"}, {\"role\": \"assistant\", \"content\": \"b\"}]'' \<noteq> []"
  by (simp add: strip_def is_space_def)

lemma format_history_records:
  "(\<forall>d \<in> set records. from_text_ok e (gemini_text d)) \<Longrightarrow>
   format_history e (map JObj records) = Inr (map (\<lambda>d. Content (gemini_role d) (gemini_text d)) records)"
  by (induction records) simp_all

text \<open>
  A viewer that sends text only. It connects while the worker answers with a history of
  k dictionaries, bare or wrapped, and its channel takes the sends. Whatever arrives
  afterwards, the handler's effects are the accept, the fetch and k sends to that viewer,
  one full-type event per record in history order; every other connection receives
  nothing and nothing is broadcast. While only text frames arrive the handler keeps
  waiting with the viewer registered, and at the disconnect it returns with the viewer
  unregistered.
\<close>

lemma websocket_endpoint_text_traffic:
  assumes response: "worker_get e = Response 200 text (Some json_data)"
      and body: "strip text \<noteq> []"
      and history: "parse_worker_history json_data = JList (map JObj records)"
      and sends: "\<forall>d \<in> set records. send_ok e websocket (full_event d)"
      and fresh: "websocket \<notin> set (active_connections w)"
  shows "effects_of w (fst (websocket_endpoint e websocket frames w)) =
           Accepted websocket # Worker_Get # map (\<lambda>d. Sent websocket (full_event d)) records \<and>
         received websocket (effects_of w (fst (websocket_endpoint e websocket frames w))) =
           map full_event records \<and>
         (c \<noteq> websocket \<longrightarrow> received c (effects_of w (fst (websocket_endpoint e websocket frames w))) = []) \<and>
         broadcasts (effects_of w (fst (websocket_endpoint e websocket frames w))) = [] \<and>
         snd (websocket_endpoint e websocket (map Text_Frame texts) w) = Waiting \<and>
         active_connections (fst (websocket_endpoint e websocket (map Text_Frame texts) w)) =
           active_connections w @ [websocket] \<and>
         snd (websocket_endpoint e websocket (map Text_Frame texts @ Disconnect_Frame # later) w) = Returned \<and>
         active_connections
           (fst (websocket_endpoint e websocket (map Text_Frame texts @ Disconnect_Frame # later) w)) =
           active_connections w"
proof -
  let ?es = "effects_of w (fst (websocket_endpoint e websocket frames w))"
  let ?synced = "sync_history e websocket (connect websocket w)"
  have synced: "?synced =
      emit (Worker_Get # map (\<lambda>d. Sent websocket (full_event d)) records) (connect websocket w)"
    by (rule sync_history_records [OF response body history sends])
  have synced_trace: "trace ?synced =
      trace w @ Accepted websocket # Worker_Get # map (\<lambda>d. Sent websocket (full_event d)) records"
    by (simp add: synced emit_trace connect_trace)
  have synced_conns: "active_connections ?synced = active_connections w @ [websocket]"
    by (simp add: synced emit_conns connect_conns)
  have order: "?es = Accepted websocket # Worker_Get # map (\<lambda>d. Sent websocket (full_event d)) records"
    by (rule effects_ofI) (simp add: websocket_endpoint_def receive_loop_trace synced_trace)
  have own: "received websocket ?es = map full_event records"
    by (simp add: order received_sent_self)
  have others: "received c ?es = []" if "c \<noteq> websocket"
    using that by (simp add: order received_sent_other)
  have none: "broadcasts ?es = []"
    by (simp add: order broadcasts_sent)
  have waiting: "snd (websocket_endpoint e websocket (map Text_Frame texts) w) = Waiting \<and>
      active_connections (fst (websocket_endpoint e websocket (map Text_Frame texts) w)) =
        active_connections w @ [websocket]"
    by (simp add: websocket_endpoint_def receive_loop_texts synced_conns)
  have closed: "snd (websocket_endpoint e websocket (map Text_Frame texts @ Disconnect_Frame # later) w) = Returned \<and>
      active_connections
        (fst (websocket_endpoint e websocket (map Text_Frame texts @ Disconnect_Frame # later) w)) =
        active_connections w"
    using fresh
    by (simp add: websocket_endpoint_def receive_loop_disconnect disconnect_def synced_conns
        remove1_append)
  show ?thesis using order own others none waiting closed by blast
qed

lemma websocket_endpoint_text_traffic_demo:
  "received 4 (effects_of world3 (fst (websocket_endpoint demo_env 4 [Text_Frame ''ping'', Disconnect_Frame] world3))) =
     [full_event user_record, full_event assistant_record] \<and>
   received 1 (effects_of world3 (fst (websocket_endpoint demo_env 4 [Text_Frame ''ping'', Disconnect_Frame] world3))) = [] \<and>
   broadcasts (effects_of world3 (fst (websocket_endpoint demo_env 4 [Text_Frame ''ping'', Disconnect_Frame] world3))) = [] \<and>
   active_connections (fst (websocket_endpoint demo_env 4 [Text_Frame ''ping''] world3)) = [1, 2, 3, 4] \<and>
   active_connections (fst (websocket_endpoint demo_env 4 [Text_Frame ''ping'', Disconnect_Frame] world3)) = [1, 2, 3]"
proof -
  have history: "parse_worker_history (JList stored_history) = JList (map JObj [user_record, assistant_record])"
    by (simp add: stored_history_records)
  have sends: "\<forall>d \<in> set [user_record, assistant_record]. send_ok demo_env 4 (full_event d)"
    by (simp add: demo_env_fields)
  have fresh: "4 \<notin> set (active_connections world3)"
    by (simp add: world3_fields)
  note run = websocket_endpoint_text_traffic [OF demo_env_response demo_env_body history sends fresh,
      of "[Text_Frame ''ping'', Disconnect_Frame]" 1 "[''ping'']" "[]"]
  have own: "received 4 (effects_of world3 (fst (websocket_endpoint demo_env 4 [Text_Frame ''ping'', Disconnect_Frame] world3))) =
     [full_event user_record, full_event assistant_record]"
    using run [THEN conjunct2, THEN conjunct1] by simp
  have other: "received 1 (effects_of world3 (fst (websocket_endpoint demo_env 4 [Text_Frame ''ping'', Disconnect_Frame] world3))) = []"
    using run [THEN conjunct2, THEN conjunct2, THEN conjunct1] by simp
  have none: "broadcasts (effects_of world3 (fst (websocket_endpoint demo_env 4 [Text_Frame ''ping'', Disconnect_Frame] world3))) = []"
    using run [THEN conjunct2, THEN conjunct2, THEN conjunct2, THEN conjunct1] by simp
  have open_conns: "active_connections (fst (websocket_endpoint demo_env 4 [Text_Frame ''ping''] world3)) = [1, 2, 3, 4]"
    using run [THEN conjunct2, THEN conjunct2, THEN conjunct2, THEN conjunct2, THEN conjunct2, THEN conjunct1]
    by (simp add: world3_fields)
  have closed_conns: "active_connections (fst (websocket_endpoint demo_env 4 [Text_Frame ''ping'', Disconnect_Frame] world3)) = [1, 2, 3]"
    using run [THEN conjunct2, THEN conjunct2, THEN conjunct2, THEN conjunct2, THEN conjunct2,
        THEN conjunct2, THEN conjunct2]
    by (simp add: world3_fields)
  show ?thesis using own other none open_conns closed_conns by simp
qed

section \<open>The claims\<close>

subsection \<open>C1: the stream always ends with one stream-end event\<close>

text \<open>
  C1. Every run of \<open>generate_ai_response\<close> should end its broadcasts with exactly one
  stream-end event. The code does so whenever the context for the backend can be
  assembled (\<open>generate_ai_response_stream_end\<close> above), since both the normal end and the
  handler of the stream broadcast it; a stream that raises after some fragments gives
  those fragments, the error fragment and the stream-end, and no post to the worker
  (\<open>stream_loop_failure\<close>). The assembly itself stands before the \<open>try\<close>: when the
  worker's list holds a value that is not a dictionary, here a \<open>null\<close>, \<open>msg.get\<close>
  raises, the operation ends with that exception, and nothing at all is broadcast.
\<close>

theorem generate_ai_response_no_stream_end:
  "generate_ai_response null_record_env (JStr ''hi'') world3 =
     (world3\<lparr>trace := [Worker_Get]\<rparr>, Some AttributeError) \<and>
   broadcasts (trace (fst (generate_ai_response null_record_env (JStr ''hi'') world3))) = []"
  by (simp add: generate_ai_response_def gemini_contents_def fetch_history_def decode_history_def
      null_record_env_def emit_def world3_def)

subsection \<open>C2: a failed send does not stop a broadcast\<close>

text \<open>
  C2 as stated, refuted: with three registered connections of which the second fails,
  the third still receives the message, and the second is still registered after the
  call. \<open>broadcast\<close> never removes anything from the registry.
\<close>

theorem broadcast_keeps_failing_connection:
  "\<not> send_ok demo_env 2 clear_event \<and>
   received 3 (trace (broadcast demo_env clear_event world3)) = [clear_event] \<and>
   2 \<in> set (active_connections (broadcast demo_env clear_event world3))"
  by (simp add: broadcast_def demo_env_def world3_def emit_def)

text \<open>
  C2 as amended. One \<open>broadcast\<close> attempts one send per registered connection, in
  registry order, whatever the outcome of the sends before it; a connection receives the
  message exactly when its own send succeeds (once per time it is registered); and the
  registry after the call is the registry before it.
\<close>

theorem broadcast_delivery:
  "effects_of w (broadcast e message w) = broadcast_effects e message (active_connections w) \<and>
   received c (effects_of w (broadcast e message w)) =
     (if send_ok e c message then replicate (count_list (active_connections w) c) message else []) \<and>
   active_connections (broadcast e message w) = active_connections w"
  by (simp add: effects_ofI [OF broadcast_trace] received_broadcast_effects broadcast_conns)

theorem broadcast_delivery_witness:
  "received 1 (effects_of world3 (broadcast demo_env clear_event world3)) = [clear_event] \<and>
   received 2 (effects_of world3 (broadcast demo_env clear_event world3)) = [] \<and>
   received 3 (effects_of world3 (broadcast demo_env clear_event world3)) = [clear_event] \<and>
   active_connections (broadcast demo_env clear_event world3) = [1, 2, 3]"
  by (simp add: broadcast_delivery received_broadcast_effects demo_env_fields world3_fields)

subsection \<open>C3: what the history fetch yields\<close>

text \<open>
  C3 as stated, refuted: the worker answers 200 with the list \<open>[1]\<close>, a payload that is
  not a list of records, and the fetch yields that list, not the empty one; it answers
  with a dictionary holding \<open>null\<close> under \<open>history\<close>, and the fetch yields \<open>None\<close>, which
  is no sequence at all. The parser looks at the outermost shape of the payload only.
\<close>

theorem fetch_history_keeps_non_records:
  "fetch_history bare_numbers_env = JList [JNum 1] \<and>
   fetch_history bare_numbers_env \<noteq> JList [] \<and>
   fetch_history wrapped_null_env = JNull"
  by (simp add: fetch_history_def decode_history_def bare_numbers_env_def wrapped_null_env_def
      dict_get_default_def)

text \<open>
  C3 as amended. The fetch of \<open>generate_ai_response\<close> never raises: every exception of
  the request and of the decoding is handled inside it, and its result is a plain value.
  It yields the empty list when the request fails or times out, when the status is not
  200, when the body does not decode (an empty body does not), when the payload is
  neither a list nor a dictionary, and when it is a dictionary without the \<open>history\<close>
  key. A list is yielded as it is, whatever its elements, and so is a list that a
  dictionary holds under \<open>history\<close>.
\<close>

theorem fetch_history_shapes:
  "(worker_get e = Request_Failed \<longrightarrow> fetch_history e = JList []) \<and>
   (worker_get e = Response status text js \<and> status \<noteq> 200 \<longrightarrow> fetch_history e = JList []) \<and>
   (worker_get e = Response 200 text None \<longrightarrow> fetch_history e = JList []) \<and>
   (worker_get e = Response 200 text (Some json_data) \<and> \<not> is_list json_data \<and> \<not> is_dict json_data
      \<longrightarrow> fetch_history e = JList []) \<and>
   (worker_get e = Response 200 text (Some (JObj d)) \<and> dict_get d ''history'' = None
      \<longrightarrow> fetch_history e = JList []) \<and>
   (worker_get e = Response 200 text (Some (JList xs)) \<longrightarrow> fetch_history e = JList xs) \<and>
   (worker_get e = Response 200 text (Some (JObj d)) \<and> dict_get d ''history'' = Some (JList xs)
      \<longrightarrow> fetch_history e = JList xs)"
  by (cases json_data)
     (simp_all add: fetch_history_def decode_history_def dict_get_def dict_get_default_def)

theorem fetch_history_shapes_witness:
  "fetch_history unreachable_worker_env = JList [] \<and>
   fetch_history demo_env = JList stored_history \<and>
   fetch_history wrapped_env = JList stored_history"
proof -
  have failed: "worker_get unreachable_worker_env = Request_Failed"
    by (simp add: unreachable_worker_env_def)
  have wrapped: "worker_get wrapped_env =
      Response 200
        ''{\"history\": [{\"role\": \"user\", \"content\": \"a\"}, {\"role\": \"assistant\", \"content\": \"b\"}]}''
        (Some (JObj [(''history'', JList stored_history)])) \<and>
      dict_get [(''history'', JList stored_history)] ''history'' = Some (JList stored_history)"
    by (simp add: wrapped_env_def dict_get_def)
  show ?thesis
    using fetch_history_shapes [of unreachable_worker_env, THEN conjunct1] failed
      fetch_history_shapes [of demo_env _ _ _ _ _ stored_history] demo_env_response
      fetch_history_shapes [of wrapped_env _ _ _ _ "[(''history'', JList stored_history)]" stored_history]
      wrapped
    by simp
qed

subsection \<open>C4: a successful generation\<close>

text \<open>
  C4. When the stream ends normally, having produced the chunks \<open>ts\<close>, whose text
  fragments (the non-empty texts) are \<open>f1..fN\<close>: the operation does not raise; after the
  fetch and the backend call it broadcasts one stream event per fragment, carrying that
  fragment alone, in order, then posts the concatenation of the fragments to the worker
  as one assistant message, then broadcasts the one stream-end event; and a registered
  viewer whose sends succeed receives exactly the N fragment events in order followed by
  the stream-end, whoever else is registered and whatever happens to their sends.
\<close>

theorem generate_ai_response_success:
  assumes ctx: "gemini_contents e (fetch_history e) user_content = Inr contents"
      and stream: "generate_content_stream e contents = map Chunk ts"
  shows "snd (generate_ai_response e user_content w) = None \<and>
     effects_of w (fst (generate_ai_response e user_content w)) =
       [Worker_Get, Gemini_Call contents]
       @ concat (map (\<lambda>f. broadcast_effects e (stream_event f) (active_connections w)) (fragments ts))
       @ [Worker_Post ''assistant'' (JStr (concat (fragments ts)))]
       @ broadcast_effects e stream_end_event (active_connections w) \<and>
     broadcasts (effects_of w (fst (generate_ai_response e user_content w))) =
       map stream_event (fragments ts) @ [stream_end_event] \<and>
     (distinct (active_connections w) \<and> c \<in> set (active_connections w) \<and> (\<forall>m. send_ok e c m) \<longrightarrow>
        received c (effects_of w (fst (generate_ai_response e user_content w))) =
          map stream_event (fragments ts) @ [stream_end_event])"
proof -
  let ?es = "effects_of w (fst (generate_ai_response e user_content w))"
  have no_error: "snd (generate_ai_response e user_content w) = None"
    by (simp add: generate_ai_response_streams [OF ctx])
  have order: "?es =
       [Worker_Get, Gemini_Call contents]
       @ concat (map (\<lambda>f. broadcast_effects e (stream_event f) (active_connections w)) (fragments ts))
       @ [Worker_Post ''assistant'' (JStr (concat (fragments ts)))]
       @ broadcast_effects e stream_end_event (active_connections w)"
    by (rule successful_run_trace [OF ctx stream])
  have events: "broadcasts ?es = map stream_event (fragments ts) @ [stream_end_event]"
    by (simp add: order broadcasts_append broadcasts_many_broadcasts broadcasts_broadcast_effects)
  have viewer: "received c ?es = map stream_event (fragments ts) @ [stream_end_event]"
    if "distinct (active_connections w)" "c \<in> set (active_connections w)" "\<forall>m. send_ok e c m"
    using that
    by (simp add: order received_append received_many_broadcasts received_one_broadcast)
  show ?thesis using no_error order events viewer by blast
qed

theorem generate_ai_response_success_witness:
  "received 3 (effects_of world3 (fst (generate_ai_response demo_env (JStr ''hi'') world3))) =
     [stream_event ''Hel'', stream_event ''lo'', stream_end_event] \<and>
   broadcasts (effects_of world3 (fst (generate_ai_response demo_env (JStr ''hi'') world3))) =
     [stream_event ''Hel'', stream_event ''lo'', stream_end_event] \<and>
   snd (generate_ai_response demo_env (JStr ''hi'') world3) = None"
proof -
  have ctx: "gemini_contents demo_env (fetch_history demo_env) (JStr ''hi'') =
     Inr [Content ''user'' (JStr ''a''), Content ''model'' (JStr ''b''), Content ''user'' (JStr ''hi'')]"
    by (simp add: gemini_contents_def fetch_history_def decode_history_def demo_env_def
            stored_history_def user_record_def assistant_record_def
      gemini_role_def gemini_text_def dict_get_def dict_get_default_def)
  have stream: "generate_content_stream demo_env
      [Content ''user'' (JStr ''a''), Content ''model'' (JStr ''b''), Content ''user'' (JStr ''hi'')] =
      map Chunk [Some ''Hel'', None, Some [], Some ''lo'']"
    by (simp add: demo_env_def)
  have ok: "\<forall>m. send_ok demo_env 3 m"
    by (simp add: demo_env_def demo_env_def)
  note run = generate_ai_response_success [OF ctx stream, of world3 3]
  have viewer: "received 3 (effects_of world3 (fst (generate_ai_response demo_env (JStr ''hi'') world3))) =
     [stream_event ''Hel'', stream_event ''lo'', stream_end_event]"
    using run [THEN conjunct2, THEN conjunct2, THEN conjunct2] ok by (simp add: world3_fields)
  have events: "broadcasts (effects_of world3 (fst (generate_ai_response demo_env (JStr ''hi'') world3))) =
     [stream_event ''Hel'', stream_event ''lo'', stream_end_event]"
    using run [THEN conjunct2, THEN conjunct2, THEN conjunct1] by simp
  show ?thesis using viewer events run [THEN conjunct1] by simp
qed

subsection \<open>C5: submitting a message\<close>

text \<open>
  C5. For a request whose body holds content \<open>c\<close>: the endpoint broadcasts the
  user-message event carrying \<open>c\<close> and queues two tasks, the save and then the
  generation; over the whole request the broadcast comes first, then the one post of
  \<open>c\<close> with role \<open>user\<close>, then everything the generation does; and \<open>c\<close> is the only
  content posted with role \<open>user\<close>.
\<close>

theorem chat_request_user_message:
  assumes content: "dict_get payload ''content'' = Some c"
  shows "effects_of w (fst (chat_endpoint e payload w)) =
           broadcast_effects e (user_event c) (active_connections w) \<and>
         fst (snd (chat_endpoint e payload w)) = [Save_Message ''user'' c, Generate_Ai_Response c] \<and>
         effects_of w (fst (chat_request e payload w)) =
           broadcast_effects e (user_event c) (active_connections w)
           @ [Worker_Post ''user'' c]
           @ effects_of (save_message e ''user'' c (broadcast e (user_event c) w))
               (fst (generate_ai_response e c (save_message e ''user'' c (broadcast e (user_event c) w)))) \<and>
         user_posts (effects_of w (fst (chat_request e payload w))) = [c]"
proof -
  let ?w2 = "save_message e ''user'' c (broadcast e (user_event c) w)"
  let ?w3 = "fst (generate_ai_response e c ?w2)"
  have c: "dict_get_default payload ''content'' (JStr []) = c"
    using content by (simp add: dict_get_def dict_get_default_def)
  have endpoint: "effects_of w (fst (chat_endpoint e payload w)) =
      broadcast_effects e (user_event c) (active_connections w)"
    by (rule effects_ofI) (simp add: chat_endpoint_def Let_def c broadcast_trace)
  have tasks: "fst (snd (chat_endpoint e payload w)) = [Save_Message ''user'' c, Generate_Ai_Response c]"
    by (simp add: chat_endpoint_def Let_def c)
  have w2: "trace ?w2 = trace w @ broadcast_effects e (user_event c) (active_connections w) @ [Worker_Post ''user'' c]"
    by (simp add: save_message_trace broadcast_trace)
  obtain es where "trace ?w3 = trace ?w2 @ es"
    using generate_ai_response_extends by blast
  then have w3: "trace ?w3 = trace ?w2 @ effects_of ?w2 ?w3"
    by (rule extends_effects_of)
  have run: "fst (chat_request e payload w) = ?w3"
    by (simp add: chat_request_run c)
  have order: "effects_of w (fst (chat_request e payload w)) =
      broadcast_effects e (user_event c) (active_connections w) @ [Worker_Post ''user'' c]
      @ effects_of ?w2 ?w3"
    unfolding run by (rule effects_ofI) (use w2 w3 in simp)
  have "user_posts (trace ?w3) = user_posts (trace ?w2) @ []"
    by (simp add: generate_ai_response_user_posts)
  then have "user_posts (effects_of ?w2 ?w3) = []"
    using w3 by (rule effects_of_user_posts [rotated])
  then have posts: "user_posts (effects_of w (fst (chat_request e payload w))) = [c]"
    by (simp add: order user_posts_append user_posts_broadcast_effects)
  show ?thesis using endpoint tasks order posts by blast
qed

theorem chat_request_user_message_witness:
  "user_posts (effects_of world3 (fst (chat_request demo_env [(''role'', JStr ''user''), (''content'', JStr ''hi'')] world3))) =
     [JStr ''hi''] \<and>
   effects_of world3 (fst (chat_endpoint demo_env [(''role'', JStr ''user''), (''content'', JStr ''hi'')] world3)) =
     [Broadcast (user_event (JStr ''hi'')), Sent 1 (user_event (JStr ''hi'')),
      Send_Failed 2 (user_event (JStr ''hi'')), Sent 3 (user_event (JStr ''hi''))]"
proof -
  have content: "dict_get [(''role'', JStr ''user''), (''content'', JStr ''hi'')] ''content'' = Some (JStr ''hi'')"
    by (simp add: dict_get_def)
  note run = chat_request_user_message [OF content, of world3 demo_env]
  show ?thesis
    using run [THEN conjunct1] run [THEN conjunct2, THEN conjunct2, THEN conjunct2]
    by (simp add: broadcast_effects_def demo_env_fields world3_fields)
qed

subsection \<open>C6: reset\<close>

text \<open>
  C6 as stated, refuted: when the delete request raises (the worker cannot be reached),
  the three registered viewers get nothing, since the broadcast stands after the request
  in the same \<open>try\<close>.
\<close>

theorem reset_history_without_clear:
  "active_connections world3 = [1, 2, 3] \<and>
   fst (reset_history unreachable_worker_env world3) = world3\<lparr>trace := [Worker_Delete]\<rparr> \<and>
   broadcasts (trace (fst (reset_history unreachable_worker_env world3))) = []"
  by (simp add: reset_history_def unreachable_worker_env_def demo_env_def world3_def emit_def)

text \<open>
  C6 as amended. Every reset sends exactly one delete request to the worker, leaves the
  registry as it is and answers with the status \<open>reset\<close>. When the request returns, exactly
  one clear event is broadcast after it, and every registered viewer whose send succeeds
  receives it once; when the request raises, nothing is broadcast.
\<close>

theorem reset_history_effects:
  "effects_of w (fst (reset_history e w)) =
     Worker_Delete # (if worker_delete_ok e then broadcast_effects e clear_event (active_connections w) else []) \<and>
   broadcasts (effects_of w (fst (reset_history e w))) = (if worker_delete_ok e then [clear_event] else []) \<and>
   (worker_delete_ok e \<and> distinct (active_connections w) \<and> c \<in> set (active_connections w) \<and>
      send_ok e c clear_event \<longrightarrow> received c (effects_of w (fst (reset_history e w))) = [clear_event]) \<and>
   active_connections (fst (reset_history e w)) = active_connections w \<and>
   snd (reset_history e w) = JObj [(''status'', JStr ''reset'')]"
proof -
  have order: "effects_of w (fst (reset_history e w)) =
     Worker_Delete # (if worker_delete_ok e then broadcast_effects e clear_event (active_connections w) else [])"
    by (rule effects_ofI) (simp add: reset_history_def Let_def broadcast_trace emit_trace emit_conns)
  have events: "broadcasts (effects_of w (fst (reset_history e w))) = (if worker_delete_ok e then [clear_event] else [])"
    by (simp add: order broadcasts_broadcast_effects)
  have viewer: "received c (effects_of w (fst (reset_history e w))) = [clear_event]"
    if "worker_delete_ok e" "distinct (active_connections w)" "c \<in> set (active_connections w)"
       "send_ok e c clear_event"
    using that by (simp add: order received_one_broadcast)
  have rest: "active_connections (fst (reset_history e w)) = active_connections w \<and>
      snd (reset_history e w) = JObj [(''status'', JStr ''reset'')]"
    by (simp add: reset_history_def Let_def broadcast_conns emit_conns)
  show ?thesis using order events viewer rest by blast
qed

theorem reset_history_effects_witness:
  "received 3 (effects_of world3 (fst (reset_history demo_env world3))) = [clear_event] \<and>
   broadcasts (effects_of world3 (fst (reset_history demo_env world3))) = [clear_event] \<and>
   broadcasts (effects_of world3 (fst (reset_history unreachable_worker_env world3))) = []"
proof -
  note ok = reset_history_effects [of world3 demo_env 3]
  note failed = reset_history_effects [of world3 unreachable_worker_env 3]
  have viewer: "received 3 (effects_of world3 (fst (reset_history demo_env world3))) = [clear_event]"
    using ok [THEN conjunct2, THEN conjunct2, THEN conjunct1]
    by (simp add: demo_env_fields world3_fields)
  have events: "broadcasts (effects_of world3 (fst (reset_history demo_env world3))) = [clear_event]"
    using ok [THEN conjunct2, THEN conjunct1] by (simp add: demo_env_fields)
  have none: "broadcasts (effects_of world3 (fst (reset_history unreachable_worker_env world3))) = []"
    using failed [THEN conjunct2, THEN conjunct1] by (simp add: unreachable_worker_env_def)
  show ?thesis using viewer events none by simp
qed

subsection \<open>C7: a viewer connects\<close>

text \<open>
  C7. A connecting viewer should alone receive the stored records as full-type events,
  and its inbound traffic should be dropped until it disconnects, when it is
  unregistered. The code does so for a viewer that sends text only
  (\<open>websocket_endpoint_text_traffic\<close> above). For a frame that carries bytes it does not:
  the fourth viewer connects, receives the two stored records, and sends one binary
  frame. \<open>receive_text\<close> raises \<open>KeyError\<close>, which the handler does not catch, so the
  handler ends there; the viewer is still registered, and the disconnect that follows
  is never read.
\<close>

theorem websocket_endpoint_binary_frame:
  "received 4 (trace (fst (websocket_endpoint demo_env 4 [Binary_Frame ''x'', Disconnect_Frame] world3))) =
     [full_event user_record, full_event assistant_record] \<and>
   snd (websocket_endpoint demo_env 4 [Binary_Frame ''x'', Disconnect_Frame] world3) = Raised KeyError \<and>
   active_connections (fst (websocket_endpoint demo_env 4 [Binary_Frame ''x'', Disconnect_Frame] world3)) =
     [1, 2, 3, 4] \<and>
   snd (websocket_endpoint demo_env 4 [Disconnect_Frame] world3) = Returned \<and>
   active_connections (fst (websocket_endpoint demo_env 4 [Disconnect_Frame] world3)) = [1, 2, 3]"
proof -
  have records: "parse_worker_history (JList stored_history) = JList (map JObj [user_record, assistant_record])"
    by (simp add: stored_history_records)
  have sends: "\<forall>d \<in> set [user_record, assistant_record]. send_ok demo_env 4 (full_event d)"
    by (simp add: demo_env_fields)
  have synced: "sync_history demo_env 4 (connect 4 world3) =
      emit [Worker_Get, Sent 4 (full_event user_record), Sent 4 (full_event assistant_record)]
        (connect 4 world3)"
    using sync_history_records [OF demo_env_response demo_env_body records sends, of "connect 4 world3"]
    by simp
  show ?thesis
    by (simp add: websocket_endpoint_def synced emit_trace emit_conns connect_trace connect_conns
        disconnect_def world3_fields)
qed

subsection \<open>C8: how a history record is read\<close>

text \<open>
  C8 as stated, refuted for the replay: a record without fields is sent to the
  connecting viewer with \<open>null\<close> as its role and \<open>null\<close> as its content, not with the
  role \<open>user\<close> and an empty text. The replay passes on what \<open>msg.get\<close> returns.
\<close>

theorem replay_sends_missing_fields_as_null:
  "dict_get [] ''content'' = None \<and>
   received 4 (trace (sync_history empty_record_env 4 world3)) =
     [JObj [(''role'', JNull), (''content'', JNull), (''type'', JStr ''full'')]] \<and>
   JObj [(''role'', JNull), (''content'', JNull), (''type'', JStr ''full'')] \<noteq>
     JObj [(''role'', JStr ''user''), (''content'', JStr []), (''type'', JStr ''full'')]"
  by (simp add: sync_history_def decode_history_def empty_record_env_def demo_env_def world3_def
      emit_def strip_def is_space_def full_event_def or_null_def dict_get_def)

text \<open>
  C8 as amended. For every history record (a dictionary) used to assemble the generation
  context, a missing content is read as the empty text and a present one is taken as it
  is; the role becomes \<open>model\<close> exactly when the record's role is \<open>assistant\<close> or
  \<open>model\<close> and \<open>user\<close> in every other case, a missing role included; and when the library
  accepts the texts, the context is the records so read, in order, followed by the
  submitted \<open>user_content\<close> as the final \<open>user\<close> turn.
\<close>

theorem gemini_contents_roles:
  "(dict_get msg ''content'' = None \<longrightarrow> gemini_text msg = JStr []) \<and>
   (dict_get msg ''content'' = Some v \<longrightarrow> gemini_text msg = v) \<and>
   (gemini_role msg = ''model'') =
     (dict_get msg ''role'' = Some (JStr ''assistant'') \<or> dict_get msg ''role'' = Some (JStr ''model'')) \<and>
   (gemini_role msg \<noteq> ''model'' \<longrightarrow> gemini_role msg = ''user'') \<and>
   ((\<forall>d \<in> set records. from_text_ok e (gemini_text d)) \<and> from_text_ok e user_content \<longrightarrow>
      gemini_contents e (JList (map JObj records)) user_content =
        Inr (map (\<lambda>d. Content (gemini_role d) (gemini_text d)) records @ [Content ''user'' user_content]))"
  by (simp add: gemini_text_def gemini_role_def dict_get_def dict_get_default_def
      gemini_contents_def format_history_records)

theorem gemini_contents_roles_witness:
  "gemini_text system_record = JStr [] \<and>
   gemini_role system_record = ''user'' \<and>
   gemini_text assistant_record = JStr ''b'' \<and>
   gemini_role assistant_record = ''model'' \<and>
   gemini_contents demo_env (JList (map JObj [system_record, assistant_record])) (JStr ''hi'') =
     Inr [Content ''user'' (JStr []), Content ''model'' (JStr ''b''), Content ''user'' (JStr ''hi'')]"
proof -
  note sys = gemini_contents_roles [of system_record _ "[system_record, assistant_record]" demo_env
      "JStr ''hi''"]
  note asst = gemini_contents_roles [of assistant_record "JStr ''b''"]
  have sys_fields: "dict_get system_record ''content'' = None"
      "dict_get system_record ''role'' = Some (JStr ''system'')"
    by (simp_all add: system_record_def dict_get_def)
  have asst_fields: "dict_get assistant_record ''content'' = Some (JStr ''b'')"
      "dict_get assistant_record ''role'' = Some (JStr ''assistant'')"
    by (simp_all add: assistant_record_def dict_get_def)
  have sys_text: "gemini_text system_record = JStr []"
    using sys [THEN conjunct1] sys_fields by simp
  have sys_role: "gemini_role system_record = ''user''"
    using sys [THEN conjunct2, THEN conjunct2, THEN conjunct1]
      sys [THEN conjunct2, THEN conjunct2, THEN conjunct2, THEN conjunct1] sys_fields
    by simp
  have asst_text: "gemini_text assistant_record = JStr ''b''"
    using asst [THEN conjunct2, THEN conjunct1] asst_fields by simp
  have asst_role: "gemini_role assistant_record = ''model''"
    using asst [THEN conjunct2, THEN conjunct2, THEN conjunct1] asst_fields by simp
  have assembled: "gemini_contents demo_env (JList (map JObj [system_record, assistant_record])) (JStr ''hi'') =
     Inr [Content ''user'' (JStr []), Content ''model'' (JStr ''b''), Content ''user'' (JStr ''hi'')]"
    using sys [THEN conjunct2, THEN conjunct2, THEN conjunct2, THEN conjunct2]
    by (simp add: demo_env_fields sys_text sys_role asst_text asst_role)
  show ?thesis using sys_text sys_role asst_text asst_role assembled by simp
qed

subsection \<open>C9: chunks without text\<close>

text \<open>
  C9. A chunk whose text is absent or empty changes nothing: the stream loop gives the
  same state, accumulator included, as on the stream without such chunks. And every event
  the operation broadcasts is the stream-end event or a stream event with a non-empty
  chunk (the error fragment of the handler included).
\<close>

theorem stream_skips_empty_chunks:
  "stream_loop e items full_response w =
     stream_loop e (filter (\<lambda>i. \<not> is_empty_chunk i) items) full_response w \<and>
   (m \<in> set (broadcasts (effects_of w (fst (generate_ai_response e user_content w)))) \<longrightarrow>
      m = stream_end_event \<or> (\<exists>t. t \<noteq> [] \<and> m = stream_event t))"
proof -
  let ?es = "effects_of w (fst (generate_ai_response e user_content w))"
  obtain es where "trace (fst (generate_ai_response e user_content w)) = trace w @ es"
    using generate_ai_response_extends by blast
  then have events: "broadcasts ?es =
     (case gemini_contents e (fetch_history e) user_content of
        Inl err \<Rightarrow> []
      | Inr contents \<Rightarrow> stream_broadcasts (generate_content_stream e contents))"
    using generate_ai_response_broadcasts by (rule effects_of_broadcasts)
  have "m = stream_end_event \<or> (\<exists>t. t \<noteq> [] \<and> m = stream_event t)" if "m \<in> set (broadcasts ?es)"
    using that unfolding events
    by (cases "gemini_contents e (fetch_history e) user_content")
       (simp_all add: stream_broadcasts_shape)
  then show ?thesis using stream_loop_skip by blast
qed

theorem stream_skips_empty_chunks_witness:
  "stream_loop demo_env [Chunk (Some ''Hel''), Chunk None, Chunk (Some []), Chunk (Some ''lo'')] [] world3 =
     stream_loop demo_env [Chunk (Some ''Hel''), Chunk (Some ''lo'')] [] world3 \<and>
   stream_event ''Hel'' \<in> set (broadcasts (effects_of world3 (fst (generate_ai_response demo_env (JStr ''hi'') world3)))) \<and>
   (stream_event ''Hel'' = stream_end_event \<or> (\<exists>t. t \<noteq> [] \<and> stream_event ''Hel'' = stream_event t))"
proof -
  have events: "broadcasts (effects_of world3 (fst (generate_ai_response demo_env (JStr ''hi'') world3))) =
      [stream_event ''Hel'', stream_event ''lo'', stream_end_event]"
    using successful_run_trace [OF demo_env_contents demo_env_fields(5), of world3]
    by (simp add: broadcasts_append broadcasts_broadcast_effects)
  then have member: "stream_event ''Hel'' \<in> set (broadcasts (effects_of world3 (fst (generate_ai_response demo_env (JStr ''hi'') world3))))"
    by simp
  note skip = stream_skips_empty_chunks
    [of demo_env "[Chunk (Some ''Hel''), Chunk None, Chunk (Some []), Chunk (Some ''lo'')]" "[]" world3
        "stream_event ''Hel''" "JStr ''hi''"]
  have same: "stream_loop demo_env [Chunk (Some ''Hel''), Chunk None, Chunk (Some []), Chunk (Some ''lo'')] [] world3 =
     stream_loop demo_env [Chunk (Some ''Hel''), Chunk (Some ''lo'')] [] world3"
    using skip [THEN conjunct1] by simp
  show ?thesis using same member skip [THEN conjunct2] by blast
qed

subsection \<open>C10: the replay skips what is not a dictionary\<close>

text \<open>
  C10. The replay over a history gives the same result as the replay over its
  dictionaries alone: a record that is not a dictionary is passed over with no send and
  no error, and the loop goes on with the records after it. Whenever the sends for the
  dictionaries succeed, whatever else the history holds, the loop ends without an error
  and has sent one full-type event for each dictionary of the history, in history order,
  and nothing else.
\<close>

theorem replay_loop_skips_non_dict:
  "replay_loop e websocket msgs w = replay_loop e websocket (filter is_dict msgs) w \<and>
   (\<not> is_dict msg \<longrightarrow> replay_loop e websocket (msg # rest) w = replay_loop e websocket rest w) \<and>
   ((\<forall>d. JObj d \<in> set msgs \<longrightarrow> send_ok e websocket (full_event d)) \<longrightarrow>
      snd (replay_loop e websocket msgs w) = None) \<and>
   ((\<forall>d. JObj d \<in> set msgs \<longrightarrow> send_ok e websocket (full_event d)) \<longrightarrow>
      replay_loop e websocket msgs w =
        (emit (map (\<lambda>d. Sent websocket (full_event d)) (dict_records msgs)) w, None))"
  using replay_loop_filter replay_loop_skip replay_loop_no_error replay_loop_dict_records
  by blast

theorem replay_loop_skips_non_dict_witness:
  "replay_loop demo_env 4 [JNull, JObj user_record, JStr ''x'', JNum 5, JObj assistant_record, JList []] world3 =
     replay_loop demo_env 4 [JObj user_record, JObj assistant_record] world3 \<and>
   replay_loop demo_env 4 [JNull, JObj user_record] world3 = replay_loop demo_env 4 [JObj user_record] world3 \<and>
   snd (replay_loop demo_env 4 [JNull, JObj user_record, JStr ''x'', JNum 5, JObj assistant_record, JList []] world3) = None \<and>
   replay_loop demo_env 4 [JNull, JObj user_record, JStr ''x'', JNum 5, JObj assistant_record, JList []] world3 =
     (emit [Sent 4 (full_event user_record), Sent 4 (full_event assistant_record)] world3, None) \<and>
   received 4 (trace (fst (replay_loop demo_env 4 [JNull, JObj user_record, JStr ''x'', JNum 5, JObj assistant_record, JList []] world3))) =
     [full_event user_record, full_event assistant_record]"
proof -
  note run = replay_loop_skips_non_dict [of demo_env 4
      "[JNull, JObj user_record, JStr ''x'', JNum 5, JObj assistant_record, JList []]" world3
      JNull "[JObj user_record]"]
  have skipped: "replay_loop demo_env 4 [JNull, JObj user_record, JStr ''x'', JNum 5, JObj assistant_record, JList []] world3 =
     replay_loop demo_env 4 [JObj user_record, JObj assistant_record] world3"
    using run [THEN conjunct1] by simp
  have one: "replay_loop demo_env 4 [JNull, JObj user_record] world3 = replay_loop demo_env 4 [JObj user_record] world3"
    using run [THEN conjunct2, THEN conjunct1] by simp
  have no_error: "snd (replay_loop demo_env 4 [JNull, JObj user_record, JStr ''x'', JNum 5, JObj assistant_record, JList []] world3) = None"
    using run [THEN conjunct2, THEN conjunct2, THEN conjunct1] by (simp add: demo_env_fields)
  have sent: "replay_loop demo_env 4 [JNull, JObj user_record, JStr ''x'', JNum 5, JObj assistant_record, JList []] world3 =
     (emit [Sent 4 (full_event user_record), Sent 4 (full_event assistant_record)] world3, None)"
    using run [THEN conjunct2, THEN conjunct2, THEN conjunct2] by (simp add: demo_env_fields)
  have got: "received 4 (trace (fst (replay_loop demo_env 4 [JNull, JObj user_record, JStr ''x'', JNum 5, JObj assistant_record, JList []] world3))) =
     [full_event user_record, full_event assistant_record]"
    unfolding sent by (simp add: emit_trace world3_fields)
  show ?thesis using skipped one no_error sent got by simp
qed

end
